theory Spec2Isabelle
  imports Main
begin

section \<open>The Rule Store: tables of \<^verbatim>\<open>backend/server.js\<close>\<close>

text \<open>
  The server keeps all durable state in Postgres tables whose schema is part of the
  source. A table is modelled as the list of its rows, a row as a record of its columns.
  Columns keep their SQL names, prefixed where two tables share a name (\<open>id\<close>,
  \<open>user_id\<close>, ...).

  The timestamp columns of \<open>appointments\<close> are TEXT: the model holds their texts as they
  are stored, and compares them as SQL compares text. Calendar dates (\<open>exception_date\<close>)
  are held as day numbers since 1970-01-01. The column \<open>contact_details\<close> of \<open>users\<close>
  (JSON) and the \<open>created_at\<close> and \<open>updated_at\<close> columns of the tables that no
  handler below writes are left out. The store is taken to satisfy its foreign keys
  (every meeting type belongs to a user), as Postgres enforces, and every text to be one
  that Postgres stores (it has no NUL character).
\<close>

type_synonym timestamp = int

record users_row =
  u_id :: string
  u_email :: string
  u_password_hash :: string
  u_username :: string
  u_name :: string
  u_default_timezone :: string

record availability_recurring_row =
  ar_id :: string
  ar_user_id :: string
  ar_day_of_week :: int
  ar_start_time :: string
  ar_end_time :: string
  ar_buffer_before :: int
  ar_buffer_after :: int
  ar_meeting_duration :: int

record availability_exceptions_row =
  ax_id :: string
  ax_user_id :: string
  ax_exception_date :: int
  ax_start_time :: "string option"
  ax_end_time :: "string option"
  ax_note :: "string option"

record meeting_types_row =
  mt_id :: string
  mt_user_id :: string
  mt_name :: string
  mt_description :: string
  mt_duration :: int
  mt_is_default :: bool

record appointment =
  appt_id :: string
  organizer_id :: string
  meeting_type_id :: string
  slot_start :: string
  slot_end :: string
  status :: string
  invitee_name :: string
  invitee_email :: string
  invitee_phone :: "string option"
  invitee_notes :: "string option"
  cancellation_token :: string
  created_at :: string
  updated_at :: string

record db =
  users :: "users_row list"
  availability_recurring :: "availability_recurring_row list"
  availability_exceptions :: "availability_exceptions_row list"
  meeting_types :: "meeting_types_row list"
  appointments :: "appointment list"

section \<open>Text order and dates\<close>

text \<open>
  SQL's \<open><\<close> and \<open><=\<close> on TEXT, in the C collation: character by character, by code,
  a proper prefix first.
\<close>

fun text_less :: "string \<Rightarrow> string \<Rightarrow> bool" where
  "text_less [] [] = False"
| "text_less [] (y # ys) = True"
| "text_less (x # xs) [] = False"
| "text_less (x # xs) (y # ys) =
     ((of_char x :: nat) < of_char y \<or> (x = y \<and> text_less xs ys))"

definition text_le :: "string \<Rightarrow> string \<Rightarrow> bool" where
  "text_le a b = (a = b \<or> text_less a b)"

text \<open>
  The handlers use two functions of JavaScript's \<open>Date\<close>, which is no part of the
  source: reading a text as an instant (milliseconds since the epoch; \<open>None\<close> for the
  invalid date) and writing an instant as text. The handlers take them as a parameter.
\<close>

record date_lib =
  Date_parse :: "string \<Rightarrow> int option"
  toISOString :: "int \<Rightarrow> string"

text \<open>
  A \<open>Date\<close> holds an instant of at most 8.64e15 ms from the epoch; anything else is the
  invalid date, on which \<open>toISOString\<close> throws.
\<close>

definition valid_date :: "timestamp \<Rightarrow> bool" where
  "valid_date t = (- 8640000000000000 \<le> t \<and> t \<le> 8640000000000000)"

text \<open>
  For the examples, the two functions on the date-time format of ECMAScript:
  \<open>iso_text\<close> is \<open>toISOString\<close> (UTC, milliseconds, \<open>Z\<close>; six-digit years with a sign
  outside 0000 to 9999), and \<open>iso_instant\<close> reads the texts
  \<open>YYYY-MM-DDTHH:mm:ss\<close>, with or without \<open>.sss\<close>, that end in \<open>Z\<close> or in an offset
  \<open>+HH:mm\<close> or \<open>-HH:mm\<close>, the year also in the expanded form of a sign and six
  digits. It is applied below to texts of these forms, and to one text, \<open>not a date\<close>,
  that no reading of dates accepts. Days are counted in the proleptic Gregorian calendar.
\<close>

definition digit_of :: "char \<Rightarrow> int option" where
  "digit_of c =
     (let n = (of_char c :: nat) in if 48 \<le> n \<and> n \<le> 57 then Some (int n - 48) else None)"

fun digits :: "string \<Rightarrow> int \<Rightarrow> int option" where
  "digits [] acc = Some acc"
| "digits (c # cs) acc =
     (case digit_of c of None \<Rightarrow> None | Some v \<Rightarrow> digits cs (10 * acc + v))"

definition number :: "string \<Rightarrow> int option" where
  "number s = (if s = [] then None else digits s 0)"

definition days_from_civil :: "int \<Rightarrow> int \<Rightarrow> int \<Rightarrow> int" where
  "days_from_civil y m d =
     (let y' = (if m \<le> 2 then y - 1 else y);
          era = y' div 400;
          yoe = y' mod 400;
          doy = (153 * (if m > 2 then m - 3 else m + 9) + 2) div 5 + d - 1;
          doe = yoe * 365 + yoe div 4 - yoe div 100 + doy
      in era * 146097 + doe - 719468)"

definition civil_from_days :: "int \<Rightarrow> int \<times> int \<times> int" where
  "civil_from_days z0 =
     (let z = z0 + 719468;
          era = z div 146097;
          doe = z mod 146097;
          yoe = (doe - doe div 1460 + doe div 36524 - doe div 146096) div 365;
          doy = doe - (365 * yoe + yoe div 4 - yoe div 100);
          mp = (5 * doy + 2) div 153;
          d = doy - (153 * mp + 2) div 5 + 1;
          m = (if mp < 10 then mp + 3 else mp - 9);
          y = yoe + era * 400
      in (if m \<le> 2 then y + 1 else y, m, d))"

definition leap :: "int \<Rightarrow> bool" where
  "leap y = (y mod 4 = 0 \<and> (y mod 100 \<noteq> 0 \<or> y mod 400 = 0))"

definition days_in_month :: "int \<Rightarrow> int \<Rightarrow> int" where
  "days_in_month y m =
     (if m = 2 then (if leap y then 29 else 28)
      else if m = 4 \<or> m = 6 \<or> m = 9 \<or> m = 11 then 30 else 31)"

fun pad :: "nat \<Rightarrow> int \<Rightarrow> string" where
  "pad 0 n = []"
| "pad (Suc k) n = pad k (n div 10) @ [char_of (48 + n mod 10)]"

definition iso_text :: "int \<Rightarrow> string" where
  "iso_text t =
     (let day = t div 86400000; ms = t mod 86400000;
          (y, m, d) = civil_from_days day;
          year = (if 0 \<le> y \<and> y \<le> 9999 then pad 4 y
                  else (if y < 0 then ''-'' else ''+'') @ pad 6 (abs y))
      in year @ ''-'' @ pad 2 m @ ''-'' @ pad 2 d @ ''T'' @ pad 2 (ms div 3600000) @ '':'' @
         pad 2 (ms div 60000 mod 60) @ '':'' @ pad 2 (ms div 1000 mod 60) @ ''.'' @
         pad 3 (ms mod 1000) @ ''Z'')"

definition zone_minutes :: "string \<Rightarrow> int option" where
  "zone_minutes z =
     (if z = ''Z'' then Some 0
      else if length z = 6 \<and> (take 1 z = ''+'' \<or> take 1 z = ''-'') \<and> take 1 (drop 3 z) = '':''
      then (case (number (take 2 (drop 1 z)), number (drop 4 z)) of
              (Some h, Some m) \<Rightarrow>
                if h \<le> 23 \<and> m \<le> 59
                then Some ((if take 1 z = ''-'' then - 1 else 1) * (h * 60 + m)) else None
            | _ \<Rightarrow> None)
      else None)"

text \<open>
  The date and time after the year, from \<open>-MM\<close> on, with the year read before it.
\<close>

definition iso_after_year :: "int \<Rightarrow> string \<Rightarrow> int option" where
  "iso_after_year y s =
     (if take 1 s = ''-'' \<and> take 1 (drop 3 s) = ''-'' \<and> take 1 (drop 6 s) = ''T'' \<and>
         take 1 (drop 9 s) = '':'' \<and> take 1 (drop 12 s) = '':''
      then (case (number (take 2 (drop 1 s)), number (take 2 (drop 4 s)),
                  number (take 2 (drop 7 s)), number (take 2 (drop 10 s)),
                  number (take 2 (drop 13 s))) of
              (Some m, Some d, Some hh, Some mi, Some ss) \<Rightarrow>
                (let rest = drop 15 s;
                     frac = (if take 1 rest = ''.'' then number (take 3 (drop 1 rest)) else Some 0);
                     zone = zone_minutes (if take 1 rest = ''.'' then drop 4 rest else rest)
                 in (case (frac, zone) of
                       (Some ms, Some off) \<Rightarrow>
                         if 1 \<le> m \<and> m \<le> 12 \<and> 1 \<le> d \<and> d \<le> days_in_month y m \<and>
                            length (take 2 (drop 13 s)) = 2 \<and>
                            hh \<le> 23 \<and> mi \<le> 59 \<and> ss \<le> 59 \<and>
                            (take 1 rest = ''.'' \<longrightarrow> length (take 3 (drop 1 rest)) = 3)
                         then (let t = days_from_civil y m d * 86400000 + hh * 3600000 +
                                       mi * 60000 + ss * 1000 + ms - off * 60000
                               in if valid_date t then Some t else None)
                         else None
                     | _ \<Rightarrow> None))
            | _ \<Rightarrow> None)
      else None)"

definition iso_instant :: "string \<Rightarrow> int option" where
  "iso_instant s =
     (if take 1 s = ''+'' \<or> take 1 s = ''-''
      then (case number (take 6 (drop 1 s)) of
              Some y \<Rightarrow>
                if length (take 6 (drop 1 s)) = 6
                then iso_after_year (if take 1 s = ''-'' then - y else y) (drop 7 s)
                else None
            | None \<Rightarrow> None)
      else (case number (take 4 s) of
              Some y \<Rightarrow> if length (take 4 s) = 4 then iso_after_year y (drop 4 s) else None
            | None \<Rightarrow> None))"

definition js_date :: date_lib where
  "js_date = \<lparr>Date_parse = iso_instant, toISOString = iso_text\<rparr>"

section \<open>Responses and real-time events\<close>

text \<open>
  The bounds of a slot and the expiry of a lock are written with \<open>toISOString\<close> from
  an instant, and the interval of a lock request is passed on as it came; no handler
  compares any of them. The model holds the instants.
\<close>

record slot =
  start_time :: timestamp
  end_time :: timestamp
  available :: bool

datatype body = Appt appointment | Slots "slot list" | Error string

text \<open>A response is the HTTP status with the JSON body sent.\<close>

type_synonym response = "nat \<times> body"

record lock_data =
  l_organizer_id :: string
  l_slot_start :: timestamp
  l_slot_end :: timestamp

record created_payload =
  cp_appointment_id :: string
  cp_organizer_id :: string
  cp_meeting_type_id :: string
  cp_slot_start :: string
  cp_slot_end :: string
  cp_status :: string
  cp_invitee_name :: string
  cp_invitee_email :: string
  cp_invitee_phone :: "string option"

record updated_payload =
  up_appointment_id :: string
  up_status :: string
  up_slot_start :: string
  up_slot_end :: string
  up_timestamp :: string

datatype event =
    appointment_created created_payload
  | appointment_updated updated_payload
  | slot_locked lock_data timestamp

text \<open>
  \<open>io.emit\<close> sends an event to every connected socket, \<open>socket.emit\<close> to the one
  socket of the handler. \<open>deliver\<close> lists who receives what, given the sockets connected.
\<close>

type_synonym socket_id = string

datatype emission = io_emit event | socket_emit socket_id event



text \<open>
  A handler that may write to the store yields the store after it, its response and its
  emissions; these read the three parts.
\<close>

type_synonym outcome = "db \<times> response \<times> emission list"

definition store_after :: "outcome \<Rightarrow> db" where
  "store_after out = fst out"

definition status_code :: "outcome \<Rightarrow> nat" where
  "status_code out = fst (fst (snd out))"

definition emitted :: "outcome \<Rightarrow> emission list" where
  "emitted out = snd (snd out)"

section \<open>POST /appointments\<close>

text \<open>
  The fields the handler destructures from the request body, together with the two parts
  of a request it never looks at: the \<open>Authorization\<close> header (the route has no
  \<open>authenticateToken\<close> middleware) and a \<open>claim_handle\<close> in the body. A field of the
  body is a text or is missing (\<open>None\<close>, also for JSON's \<open>null\<close>): a missing field goes
  to SQL as NULL.
\<close>

record booking_request =
  b_meeting_type_id :: "string option"
  b_slot_start :: "string option"
  b_invitee_name :: "string option"
  b_invitee_email :: "string option"
  b_invitee_phone :: "string option"
  b_invitee_notes :: "string option"
  b_claim_handle :: "string option"
  b_authorization :: "string option"

text \<open>
  What the handler draws from its environment: two \<open>uuidv4()\<close> and the text
  \<open>currentTimestamp()\<close> returns.
\<close>

record post_env =
  e_id :: string
  e_cancellation_token :: string
  e_timestamp :: string

text \<open>\<open>x || null\<close>: the empty string is falsy.\<close>

definition or_null :: "string option \<Rightarrow> string option" where
  "or_null x = (case x of None \<Rightarrow> None | Some s \<Rightarrow> if s = [] then None else Some s)"

text \<open>\<open>mtQuery\<close>: \<open>id = $1\<close> holds of no row when \<open>$1\<close> is NULL.\<close>

definition mtRows :: "db \<Rightarrow> string option \<Rightarrow> meeting_types_row list" where
  "mtRows d mid = filter (\<lambda>m. Some (mt_id m) = mid) (meeting_types d)"

text \<open>
  \<open>new Date(new Date(slot_start).getTime() + duration * 60000).toISOString()\<close>: there is
  no result when the text is not a date or the sum leaves the range of \<open>Date\<close>, since
  \<open>toISOString\<close> throws.
\<close>

definition compute_slot_end :: "date_lib \<Rightarrow> string \<Rightarrow> int \<Rightarrow> string option" where
  "compute_slot_end lib s duration =
     (case Date_parse lib s of
        None \<Rightarrow> None
      | Some t \<Rightarrow>
          if valid_date (t + duration * 60000) then Some (toISOString lib (t + duration * 60000))
          else None)"

text \<open>
  The WHERE clause of \<open>conflictQuery\<close>, with \<open>$1 = org\<close>, \<open>$2 = s\<close> (the text of the
  request's \<open>slot_start\<close>) and \<open>$3 = e\<close> (the text computed for the end). The columns
  are TEXT, so are the parameters, and the comparisons are those of text.
\<close>

definition conflict_where :: "string \<Rightarrow> string \<Rightarrow> string \<Rightarrow> appointment \<Rightarrow> bool" where
  "conflict_where org s e a =
     (organizer_id a = org \<and> status a = ''booked'' \<and>
      \<not> (text_le e (slot_start a) \<or> text_le (slot_end a) s))"

definition conflictRows :: "db \<Rightarrow> string \<Rightarrow> string \<Rightarrow> string \<Rightarrow> appointment list" where
  "conflictRows d org s e = filter (conflict_where org s e) (appointments d)"

definition new_appointment ::
  "post_env \<Rightarrow> booking_request \<Rightarrow> string \<Rightarrow> string \<Rightarrow> string \<Rightarrow> string \<Rightarrow> string \<Rightarrow> string
     \<Rightarrow> appointment" where
  "new_appointment env r org mid s e name email =
     \<lparr> appt_id = e_id env, organizer_id = org, meeting_type_id = mid,
       slot_start = s, slot_end = e, status = ''booked'',
       invitee_name = name, invitee_email = email,
       invitee_phone = or_null (b_invitee_phone r), invitee_notes = or_null (b_invitee_notes r),
       cancellation_token = e_cancellation_token env,
       created_at = e_timestamp env, updated_at = e_timestamp env \<rparr>"

definition created_event :: "appointment \<Rightarrow> event" where
  "created_event a = appointment_created
     \<lparr> cp_appointment_id = appt_id a, cp_organizer_id = organizer_id a,
       cp_meeting_type_id = meeting_type_id a, cp_slot_start = slot_start a,
       cp_slot_end = slot_end a, cp_status = status a, cp_invitee_name = invitee_name a,
       cp_invitee_email = invitee_email a, cp_invitee_phone = invitee_phone a \<rparr>"

text \<open>
  The handler, as a function from the store to the store after it, the response and the
  events emitted. Every path but the last ends in ROLLBACK: the store is returned as it
  was. The \<open>catch\<close> branch (500) is reached
  \<^item> before the conflict query, when \<open>toISOString\<close> throws: \<open>slot_start\<close> is missing
    or no date, or the end is out of range (for a \<open>null\<close> \<open>slot_start\<close> the throw comes
    later, from the INSERT, to the same effect);
  \<^item> at the INSERT, when a NOT NULL column (\<open>meeting_type_id\<close>, \<open>invitee_name\<close>,
    \<open>invitee_email\<close>) would get NULL, or the primary key is already there.
\<close>

definition post_appointments ::
  "date_lib \<Rightarrow> db \<Rightarrow> post_env \<Rightarrow> booking_request \<Rightarrow> db \<times> response \<times> emission list" where
  "post_appointments lib d env r =
     (case mtRows d (b_meeting_type_id r) of
        [] \<Rightarrow> (d, (400, Error ''Invalid meeting type''), [])
      | meeting_type # _ \<Rightarrow>
          (case b_slot_start r of
             None \<Rightarrow> (d, (500, Error ''Failed to create appointment''), [])
           | Some s \<Rightarrow>
               (case compute_slot_end lib s (mt_duration meeting_type) of
                  None \<Rightarrow> (d, (500, Error ''Failed to create appointment''), [])
                | Some e \<Rightarrow>
                    if conflictRows d (mt_user_id meeting_type) s e \<noteq> []
                    then (d, (409, Error ''Time slot is already booked''), [])
                    else (case (b_meeting_type_id r, b_invitee_name r, b_invitee_email r) of
                            (Some mid, Some name, Some email) \<Rightarrow>
                              if e_id env \<in> set (map appt_id (appointments d))
                              then (d, (500, Error ''Failed to create appointment''), [])
                              else let a = new_appointment env r (mt_user_id meeting_type)
                                             mid s e name email
                                   in (d\<lparr>appointments := appointments d @ [a]\<rparr>,
                                       (201, Appt a), [io_emit (created_event a)])
                          | _ \<Rightarrow> (d, (500, Error ''Failed to create appointment''), [])))))"

section \<open>PUT /appointments/:id\<close>

text \<open>
  \<open>authenticateToken\<close>: the token is the second piece of the \<open>Authorization\<close> header
  split at spaces. The check of the signature is a parameter, \<open>verify\<close>, giving the
  payload of a token that verifies.
\<close>

record jwt_user =
  ju_id :: string
  ju_email :: string

fun split_on :: "char \<Rightarrow> string \<Rightarrow> string list" where
  "split_on c [] = [[]]"
| "split_on c (x # xs) =
     (if x = c then [] # split_on c xs
      else (case split_on c xs of [] \<Rightarrow> [[x]] | w # ws \<Rightarrow> (x # w) # ws))"

definition authenticateToken ::
  "(string \<Rightarrow> jwt_user option) \<Rightarrow> string option \<Rightarrow> response + jwt_user" where
  "authenticateToken verify h =
     (case h of
        None \<Rightarrow> Inl (401, Error ''No token provided'')
      | Some authHeader \<Rightarrow>
          if authHeader = [] then Inl (401, Error ''No token provided'')
          else (case split_on CHR '' '' authHeader of
                  _ # token # _ \<Rightarrow>
                    if token = [] then Inl (401, Error ''No token provided'')
                    else (case verify token of
                            None \<Rightarrow> Inl (403, Error ''Invalid token'')
                          | Some user \<Rightarrow> Inr user)
                | _ \<Rightarrow> Inl (401, Error ''No token provided'')))"

text \<open>The body of the request: each field is a text or is missing, and then goes to SQL as
  NULL. \<open>ts\<close> is the text \<open>currentTimestamp()\<close> returns.\<close>

record update_request =
  p_status :: "string option"
  p_slot_start :: "string option"
  p_slot_end :: "string option"

definition coalesce :: "'a option \<Rightarrow> 'a \<Rightarrow> 'a" where
  "coalesce x y = (case x of Some v \<Rightarrow> v | None \<Rightarrow> y)"

definition update_where :: "string \<Rightarrow> string \<Rightarrow> appointment \<Rightarrow> bool" where
  "update_where i uid a = (appt_id a = i \<and> organizer_id a = uid)"

definition update_set :: "update_request \<Rightarrow> string \<Rightarrow> appointment \<Rightarrow> appointment" where
  "update_set r ts a =
     a\<lparr> status := coalesce (p_status r) (status a),
        slot_start := coalesce (p_slot_start r) (slot_start a),
        slot_end := coalesce (p_slot_end r) (slot_end a),
        updated_at := ts \<rparr>"

definition updated_event :: "appointment \<Rightarrow> string \<Rightarrow> event" where
  "updated_event a ts = appointment_updated
     \<lparr> up_appointment_id = appt_id a, up_status = status a, up_slot_start = slot_start a,
       up_slot_end = slot_end a, up_timestamp = ts \<rparr>"

text \<open>
  The UPDATE rewrites every row its WHERE clause selects and returns the rewritten rows;
  the handler answers 404 when there is none, and the first of them otherwise.
\<close>

definition put_appointments ::
  "db \<Rightarrow> (string \<Rightarrow> jwt_user option) \<Rightarrow> string \<Rightarrow> string option \<Rightarrow> string \<Rightarrow> update_request
     \<Rightarrow> db \<times> response \<times> emission list" where
  "put_appointments d verify ts auth i r =
     (case authenticateToken verify auth of
        Inl resp \<Rightarrow> (d, resp, [])
      | Inr user \<Rightarrow>
          (case map (update_set r ts) (filter (update_where i (ju_id user)) (appointments d)) of
             [] \<Rightarrow> (d, (404, Error ''Appointment not found or unauthorized''), [])
           | updatedAppointment # _ \<Rightarrow>
               (d\<lparr>appointments :=
                    map (\<lambda>a. if update_where i (ju_id user) a then update_set r ts a else a)
                      (appointments d)\<rparr>,
                (200, Appt updatedAppointment),
                [io_emit (updated_event updatedAppointment ts)])))"

section \<open>GET /slots\<close>

text \<open>
  The handler reads \<open>Date.now()\<close> six times, once for each bound of its three slots, in
  the order of the array literal.
\<close>

record clock_readings =
  now1 :: timestamp
  now2 :: timestamp
  now3 :: timestamp
  now4 :: timestamp
  now5 :: timestamp
  now6 :: timestamp

definition mock_slots :: "clock_readings \<Rightarrow> slot list" where
  "mock_slots c =
     [\<lparr>start_time = now1 c + 3600000, end_time = now2 c + 5400000, available = True\<rparr>,
      \<lparr>start_time = now3 c + 7200000, end_time = now4 c + 9000000, available = True\<rparr>,
      \<lparr>start_time = now5 c + 10800000, end_time = now6 c + 12600000, available = False\<rparr>]"

definition get_slots :: "db \<Rightarrow> clock_readings \<Rightarrow> string option \<Rightarrow> response" where
  "get_slots d c organizer =
     (case organizer of
        None \<Rightarrow> (400, Error ''Organizer username is required'')
      | Some name \<Rightarrow>
          if name = [] then (400, Error ''Organizer username is required'')
          else (case filter (\<lambda>u. u_username u = name) (users d) of
                  [] \<Rightarrow> (404, Error ''Organizer not found'')
                | user # _ \<Rightarrow> (200, Slots (mock_slots c))))"

definition slots_of :: "response \<Rightarrow> slot list" where
  "slots_of resp = (case snd resp of Slots ss \<Rightarrow> ss | _ \<Rightarrow> [])"

section \<open>The \<open>lock_slot\<close> socket handler\<close>

text \<open>
  The handler keeps no state. It destructures its payload before its \<open>try\<close> block: on a
  request without payload (\<open>None\<close>) that throws, the promise of the handler is
  rejected, and nothing is emitted. On a payload nothing in the \<open>try\<close> block throws, so
  the \<open>catch\<close> branch, the only \<open>socket.emit\<close> of the server, is never taken.
\<close>

definition lock_slot :: "timestamp \<Rightarrow> socket_id \<Rightarrow> lock_data option \<Rightarrow> emission list" where
  "lock_slot now sid payload =
     (case payload of
        None \<Rightarrow> []
      | Some data \<Rightarrow> [io_emit (slot_locked data (now + 30000))])"

text \<open>A lock request that carries a payload, and the emissions of a list of them.\<close>

record lock_call =
  lc_now :: timestamp
  lc_socket :: socket_id
  lc_data :: lock_data

definition lock_calls :: "lock_call list \<Rightarrow> emission list" where
  "lock_calls cs = concat (map (\<lambda>c. lock_slot (lc_now c) (lc_socket c) (Some (lc_data c))) cs)"

section \<open>Intervals, overlap and the booking invariant\<close>

text \<open>The overlap test in the words of the specification, on half-open intervals.\<close>

definition half_open_overlap :: "timestamp \<times> timestamp \<Rightarrow> timestamp \<times> timestamp \<Rightarrow> bool" where
  "half_open_overlap a b = (fst a < snd b \<and> fst b < snd a)"

text \<open>The interval of instants an appointment occupies, if both its texts are dates.\<close>

definition interval :: "date_lib \<Rightarrow> appointment \<Rightarrow> (timestamp \<times> timestamp) option" where
  "interval lib a =
     (case (Date_parse lib (slot_start a), Date_parse lib (slot_end a)) of
        (Some s, Some e) \<Rightarrow> Some (s, e)
      | _ \<Rightarrow> None)"

definition double_booked :: "date_lib \<Rightarrow> appointment \<Rightarrow> appointment \<Rightarrow> bool" where
  "double_booked lib a b =
     (status a = ''booked'' \<and> status b = ''booked'' \<and> organizer_id a = organizer_id b \<and>
      (case (interval lib a, interval lib b) of
         (Some i, Some j) \<Rightarrow> half_open_overlap i j
       | _ \<Rightarrow> False))"

fun no_double_booking :: "date_lib \<Rightarrow> appointment list \<Rightarrow> bool" where
  "no_double_booking lib [] = True"
| "no_double_booking lib (a # as) =
     ((\<forall>b \<in> set as. \<not> double_booked lib a b) \<and> no_double_booking lib as)"

text \<open>
  What the conflict check is meant to find: the booked appointments of an organizer whose
  interval overlaps the interval from instant \<open>t\<close> to instant \<open>t'\<close>.
\<close>

definition overlapping_booked ::
  "date_lib \<Rightarrow> db \<Rightarrow> string \<Rightarrow> timestamp \<Rightarrow> timestamp \<Rightarrow> appointment list" where
  "overlapping_booked lib d org t t' =
     filter (\<lambda>a. organizer_id a = org \<and> status a = ''booked'' \<and>
                 (case interval lib a of Some i \<Rightarrow> half_open_overlap i (t, t') | None \<Rightarrow> False))
       (appointments d)"

text \<open>Whether the handler's emissions grant the lock a call asked for.\<close>

definition granted :: "lock_call \<Rightarrow> bool" where
  "granted c =
     (io_emit (slot_locked (lc_data c) (lc_now c + 30000))
        \<in> set (lock_slot (lc_now c) (lc_socket c) (Some (lc_data c))))"

text \<open>The slots of a list are pairwise disjoint, and in the order of their starts.\<close>

fun slots_disjoint :: "slot list \<Rightarrow> bool" where
  "slots_disjoint [] = True"
| "slots_disjoint (s # ss) =
     ((\<forall>t \<in> set ss. \<not> half_open_overlap (start_time s, end_time s) (start_time t, end_time t))
      \<and> slots_disjoint ss)"

definition clock_monotone :: "clock_readings \<Rightarrow> bool" where
  "clock_monotone c =
     (now1 c \<le> now2 c \<and> now2 c \<le> now3 c \<and> now3 c \<le> now4 c \<and> now4 c \<le> now5 c \<and> now5 c \<le> now6 c)"

text \<open>
  The calendar day of an instant at a fixed offset from UTC (in minutes), and its day of
  the week, 0 for Sunday as in \<open>availability_recurring\<close>; 1970-01-01 was a Thursday.
\<close>

definition day_of :: "int \<Rightarrow> timestamp \<Rightarrow> int" where
  "day_of off t = (t + off * 60000) div 86400000"

definition weekday :: "int \<Rightarrow> int" where
  "weekday day = (day + 4) mod 7"

text \<open>
  The specification's rule for the windows of a day, as far as their existence goes: an
  exception for the date decides alone, and opens a window only when it gives both
  bounds; without one, a recurring rule for the day of the week does.
\<close>

definition spec_has_window :: "db \<Rightarrow> string \<Rightarrow> int \<Rightarrow> bool" where
  "spec_has_window d uid day =
     (if \<exists>x \<in> set (availability_exceptions d). ax_user_id x = uid \<and> ax_exception_date x = day
      then \<exists>x \<in> set (availability_exceptions d).
             ax_user_id x = uid \<and> ax_exception_date x = day \<and>
             ax_start_time x \<noteq> None \<and> ax_end_time x \<noteq> None
      else \<exists>r \<in> set (availability_recurring d).
             ar_user_id r = uid \<and> ar_day_of_week r = weekday day)"

section \<open>The seed data of the source, and sample inputs\<close>

text \<open>
  The rows the schema script inserts (2023-10-31 is day 19661, a Tuesday). Their
  timestamps are written without milliseconds.
\<close>

definition seed_users :: "users_row list" where
  "seed_users =
     [\<lparr>u_id = ''user1'', u_email = ''alice@simplecal.com'', u_password_hash = ''hashedpassword1'',
       u_username = ''alice'', u_name = ''Alice Anderson'', u_default_timezone = ''America/New_York''\<rparr>,
      \<lparr>u_id = ''user2'', u_email = ''bob@simplecal.com'', u_password_hash = ''hashedpassword2'',
       u_username = ''bob'', u_name = ''Bob Brown'', u_default_timezone = ''Europe/London''\<rparr>,
      \<lparr>u_id = ''user3'', u_email = ''carol@simplecal.com'', u_password_hash = ''hashedpassword3'',
       u_username = ''carol'', u_name = ''Carol Clark'', u_default_timezone = ''Asia/Tokyo''\<rparr>]"

definition seed_recurring :: "availability_recurring_row list" where
  "seed_recurring =
     [\<lparr>ar_id = ''avail1'', ar_user_id = ''user1'', ar_day_of_week = 1, ar_start_time = ''09:00'',
       ar_end_time = ''17:00'', ar_buffer_before = 15, ar_buffer_after = 15, ar_meeting_duration = 30\<rparr>,
      \<lparr>ar_id = ''avail2'', ar_user_id = ''user1'', ar_day_of_week = 3, ar_start_time = ''10:00'',
       ar_end_time = ''18:00'', ar_buffer_before = 10, ar_buffer_after = 10, ar_meeting_duration = 30\<rparr>,
      \<lparr>ar_id = ''avail3'', ar_user_id = ''user2'', ar_day_of_week = 2, ar_start_time = ''08:00'',
       ar_end_time = ''16:00'', ar_buffer_before = 15, ar_buffer_after = 15, ar_meeting_duration = 60\<rparr>,
      \<lparr>ar_id = ''avail4'', ar_user_id = ''user3'', ar_day_of_week = 4, ar_start_time = ''09:30'',
       ar_end_time = ''17:30'', ar_buffer_before = 5, ar_buffer_after = 5, ar_meeting_duration = 45\<rparr>]"

definition seed_exceptions :: "availability_exceptions_row list" where
  "seed_exceptions =
     [\<lparr>ax_id = ''availexc1'', ax_user_id = ''user1'', ax_exception_date = 19661,
       ax_start_time = None, ax_end_time = None, ax_note = Some ''Halloween - closed''\<rparr>,
      \<lparr>ax_id = ''availexc2'', ax_user_id = ''user2'', ax_exception_date = 19662,
       ax_start_time = Some ''10:00'', ax_end_time = Some ''14:00'',
       ax_note = Some ''Special event availability''\<rparr>]"

definition seed_meeting_types :: "meeting_types_row list" where
  "seed_meeting_types =
     [\<lparr>mt_id = ''mt1'', mt_user_id = ''user1'', mt_name = ''Initial Consultation'',
       mt_description = ''30-minute introductory meeting'', mt_duration = 30, mt_is_default = True\<rparr>,
      \<lparr>mt_id = ''mt2'', mt_user_id = ''user1'', mt_name = ''Follow-up'',
       mt_description = ''15-minute follow-up meeting'', mt_duration = 15, mt_is_default = False\<rparr>,
      \<lparr>mt_id = ''mt3'', mt_user_id = ''user2'', mt_name = ''Standard Appointment'',
       mt_description = ''60-minute standard appointment'', mt_duration = 60, mt_is_default = True\<rparr>,
      \<lparr>mt_id = ''mt4'', mt_user_id = ''user3'', mt_name = ''Consultation'',
       mt_description = ''45-minute consultation session'', mt_duration = 45, mt_is_default = True\<rparr>]"

definition appt1 :: appointment where
  "appt1 =
     \<lparr>appt_id = ''appt1'', organizer_id = ''user1'', meeting_type_id = ''mt1'',
      slot_start = ''2023-10-10T10:00:00Z'', slot_end = ''2023-10-10T10:30:00Z'', status = ''booked'',
      invitee_name = ''David'', invitee_email = ''david@example.com'',
      invitee_phone = Some ''555-1234'', invitee_notes = Some ''Looking forward to it'',
      cancellation_token = ''canceltoken1'', created_at = ''2023-10-05T09:00:00Z'',
      updated_at = ''2023-10-05T09:00:00Z''\<rparr>"

definition appt2 :: appointment where
  "appt2 =
     \<lparr>appt_id = ''appt2'', organizer_id = ''user1'', meeting_type_id = ''mt2'',
      slot_start = ''2023-10-11T11:00:00Z'', slot_end = ''2023-10-11T11:15:00Z'', status = ''booked'',
      invitee_name = ''Eva'', invitee_email = ''eva@example.com'',
      invitee_phone = Some ''555-5678'', invitee_notes = Some ''Discuss project details'',
      cancellation_token = ''canceltoken2'', created_at = ''2023-10-05T10:00:00Z'',
      updated_at = ''2023-10-05T10:00:00Z''\<rparr>"

definition appt3 :: appointment where
  "appt3 =
     \<lparr>appt_id = ''appt3'', organizer_id = ''user2'', meeting_type_id = ''mt3'',
      slot_start = ''2023-10-12T14:00:00Z'', slot_end = ''2023-10-12T15:00:00Z'', status = ''booked'',
      invitee_name = ''Frank'', invitee_email = ''frank@example.com'',
      invitee_phone = None, invitee_notes = Some ''Regular checkup'',
      cancellation_token = ''canceltoken3'', created_at = ''2023-10-06T11:00:00Z'',
      updated_at = ''2023-10-06T11:00:00Z''\<rparr>"

definition appt4 :: appointment where
  "appt4 =
     \<lparr>appt_id = ''appt4'', organizer_id = ''user3'', meeting_type_id = ''mt4'',
      slot_start = ''2023-10-13T09:00:00Z'', slot_end = ''2023-10-13T09:45:00Z'', status = ''booked'',
      invitee_name = ''Grace'', invitee_email = ''grace@example.com'',
      invitee_phone = Some ''555-6789'', invitee_notes = Some ''Consultation session'',
      cancellation_token = ''canceltoken4'', created_at = ''2023-10-07T12:00:00Z'',
      updated_at = ''2023-10-07T12:00:00Z''\<rparr>"

definition seed_db :: db where
  "seed_db =
     \<lparr>users = seed_users, availability_recurring = seed_recurring,
      availability_exceptions = seed_exceptions, meeting_types = seed_meeting_types,
      appointments = [appt1, appt2, appt3, appt4]\<rparr>"

text \<open>An environment for one POST: the values \<open>uuidv4()\<close> and the clock return.\<close>

definition env1 :: post_env where
  "env1 = \<lparr>e_id = ''appt5'', e_cancellation_token = ''canceltoken5'',
            e_timestamp = ''2023-10-09T08:00:00.000Z''\<rparr>"

text \<open>
  A booking of meeting type mt1 (30 minutes, organizer user1) at the given start, sent
  without Authorization header and with the given claim handle.
\<close>

definition booking :: "string \<Rightarrow> string option \<Rightarrow> booking_request" where
  "booking s h =
     \<lparr>b_meeting_type_id = Some ''mt1'', b_slot_start = Some s, b_invitee_name = Some ''Heidi'',
      b_invitee_email = Some ''heidi@example.com'', b_invitee_phone = Some [],
      b_invitee_notes = None, b_claim_handle = h, b_authorization = None\<rparr>"

text \<open>A token check that accepts one token, of user1.\<close>

definition verify1 :: "string \<Rightarrow> jwt_user option" where
  "verify1 token =
     (if token = ''token-of-user1''
      then Some \<lparr>ju_id = ''user1'', ju_email = ''alice@simplecal.com''\<rparr> else None)"

text \<open>A clock that stands still at \<open>t\<close> during one GET /slots.\<close>

definition still :: "timestamp \<Rightarrow> clock_readings" where
  "still t = \<lparr>now1 = t, now2 = t, now3 = t, now4 = t, now5 = t, now6 = t\<rparr>"

section \<open>The server as a state machine\<close>

text \<open>
  The calls that reach the handlers above. The store is the only state of the server:
  \<open>lock_slot\<close> and GET /slots read and write no table, and the server keeps no variable
  between two calls. (After a \<open>lock_slot\<close> without payload the store is as before; what
  the rejected promise does to the process is not modelled, and nothing below relies on
  such a call.)
\<close>

datatype call =
    Post post_env booking_request
  | Put string "string option" string update_request
  | Get clock_readings "string option"
  | Lock timestamp socket_id "lock_data option"

fun step :: "date_lib \<Rightarrow> (string \<Rightarrow> jwt_user option) \<Rightarrow> db \<Rightarrow> call \<Rightarrow> db" where
  "step lib verify d (Post env r) = store_after (post_appointments lib d env r)"
| "step lib verify d (Put ts auth i r) = store_after (put_appointments d verify ts auth i r)"
| "step lib verify d (Get c organizer) = d"
| "step lib verify d (Lock now sid payload) = d"

definition run :: "date_lib \<Rightarrow> (string \<Rightarrow> jwt_user option) \<Rightarrow> db \<Rightarrow> call list \<Rightarrow> db" where
  "run lib verify d cs = foldl (step lib verify) d cs"


text \<open>
  Sample calls. The seed store before any booking; a second environment; the
  reschedule of an appointment to an interval; two lock requests of different sockets,
  one second apart, for 10:00 to 10:30 and 10:15 to 10:45 of the same organizer.
\<close>

definition unbooked_db :: db where
  "unbooked_db = seed_db\<lparr>appointments := []\<rparr>"

definition env2 :: post_env where
  "env2 = \<lparr>e_id = ''appt6'', e_cancellation_token = ''canceltoken6'',
            e_timestamp = ''2023-10-09T08:01:00.000Z''\<rparr>"

definition move_to :: "string \<Rightarrow> string \<Rightarrow> update_request" where
  "move_to s e = \<lparr>p_status = None, p_slot_start = Some s, p_slot_end = Some e\<rparr>"

definition bearer1 :: "string option" where
  "bearer1 = Some ''Bearer token-of-user1''"

definition lockA :: lock_call where
  "lockA = \<lparr>lc_now = 1696928400000, lc_socket = ''socketA'',
            lc_data = \<lparr>l_organizer_id = ''user1'', l_slot_start = 1696932000000,
                       l_slot_end = 1696933800000\<rparr>\<rparr>"

definition lockB :: lock_call where
  "lockB = \<lparr>lc_now = 1696928401000, lc_socket = ''socketB'',
            lc_data = \<lparr>l_organizer_id = ''user1'', l_slot_start = 1696932900000,
                       l_slot_end = 1696934700000\<rparr>\<rparr>"

text \<open>
  A cancellation, which gives a status and no interval; a booking for the meeting type
  the booking form falls back to, which the seed data does not have; and bookings
  without the name of the invitee, without a start, and without the email.
\<close>

definition cancel :: update_request where
  "cancel = \<lparr>p_status = Some ''canceled'', p_slot_start = None, p_slot_end = None\<rparr>"








section \<open>Checks of the date functions\<close>

lemma iso_text_examples:
  "iso_text 1696933800000 = ''2023-10-10T10:30:00.000Z''"
  "iso_text 0 = ''1970-01-01T00:00:00.000Z''"
  "iso_text 951782400000 = ''2000-02-29T00:00:00.000Z''"
  "iso_text 8640000000000000 = ''+275760-09-13T00:00:00.000Z''"
  by code_simp+

lemma iso_instant_examples:
  "iso_instant ''2023-10-10T10:30:00.000Z'' = Some 1696933800000"
  "iso_instant ''2023-10-10T10:30:00Z'' = Some 1696933800000"
  "iso_instant ''2023-10-10T12:00:00+02:00'' = Some 1696932000000"
  "iso_instant ''+275760-09-13T00:00:00.000Z'' = Some 8640000000000000"
  "iso_instant ''1969-12-31T23:59:59.999Z'' = Some (- 1)"
  "iso_instant ''2023-02-29T10:00:00Z'' = None"
  "iso_instant ''not a date'' = None"
  by code_simp+

section \<open>The paths of POST /appointments\<close>





lemma post_appointments_codes:
  "status_code (post_appointments lib d env r) \<in> {201, 400, 409, 500}"
  by (simp add: post_appointments_def status_code_def Let_def
      split: list.splits option.splits)







text \<open>Rows that are not booked, or belong to another organizer, are never conflicting.\<close>

lemma conflictRows_booked_only:
  "a \<in> set (conflictRows d org s e) \<Longrightarrow> status a = ''booked'' \<and> organizer_id a = org"
  by (simp add: conflictRows_def conflict_where_def)

section \<open>The conflict check of POST /appointments\<close>

text \<open>
  Claim C5. The conflict query compares texts, not instants. On the seed data, appt1 of
  user1 runs from 10:00 to 10:30 on 2023-10-10, written \<open>2023-10-10T10:30:00Z\<close> at its
  end. A booking of 30 minutes from \<open>2023-10-10T10:30:00.000Z\<close>, the same instant, is
  overlapped by no booked appointment of user1; the query selects appt1 all the same
  (\<open>.\<close> sorts before \<open>Z\<close>) and the answer is 409. A booking from
  \<open>2023-10-10T12:00:00+02:00\<close>, the instant appt1 starts at, overlaps appt1; the query
  selects nothing and the answer is 201.
\<close>

theorem conflict_check_compares_text:
  "Date_parse js_date ''2023-10-10T10:30:00.000Z'' = Some 1696933800000
   \<and> Date_parse js_date (slot_end appt1) = Some 1696933800000
   \<and> compute_slot_end js_date ''2023-10-10T10:30:00.000Z'' 30 = Some ''2023-10-10T11:00:00.000Z''
   \<and> Date_parse js_date ''2023-10-10T11:00:00.000Z'' = Some 1696935600000
   \<and> overlapping_booked js_date seed_db ''user1'' 1696933800000 1696935600000 = []
   \<and> conflictRows seed_db ''user1'' ''2023-10-10T10:30:00.000Z'' ''2023-10-10T11:00:00.000Z''
        = [appt1]
   \<and> status_code (post_appointments js_date seed_db env1
        (booking ''2023-10-10T10:30:00.000Z'' None)) = 409
   \<and> Date_parse js_date ''2023-10-10T12:00:00+02:00'' = Some 1696932000000
   \<and> compute_slot_end js_date ''2023-10-10T12:00:00+02:00'' 30 = Some ''2023-10-10T10:30:00.000Z''
   \<and> overlapping_booked js_date seed_db ''user1'' 1696932000000 1696933800000 = [appt1]
   \<and> conflictRows seed_db ''user1'' ''2023-10-10T12:00:00+02:00'' ''2023-10-10T10:30:00.000Z''
        = []
   \<and> status_code (post_appointments js_date seed_db env1
        (booking ''2023-10-10T12:00:00+02:00'' None)) = 201"
  by code_simp
section \<open>The contract of POST /appointments\<close>





section \<open>POST /appointments and the claims\<close>






section \<open>The booking invariant under POST and PUT\<close>

text \<open>
  Claim C1. PUT /appointments/:id writes the interval it is given without a conflict
  query. From the store without appointments, two bookings of user1 (10:00 to 10:30 on
  2023-10-10, and 11:00 to 11:30 the day after) are accepted and keep the invariant; the
  organizer's reschedule of the second onto 10:00 to 10:30 is answered 200, and the store
  then holds two booked appointments of user1 on the same interval.
\<close>

theorem put_appointments_double_books:
  "no_double_booking js_date (appointments unbooked_db)
   \<and> no_double_booking js_date (appointments
        (run js_date verify1 unbooked_db
           [Post env1 (booking ''2023-10-10T10:00:00.000Z'' None),
            Post env2 (booking ''2023-10-11T11:00:00.000Z'' None)]))
   \<and> status_code (put_appointments
        (run js_date verify1 unbooked_db
           [Post env1 (booking ''2023-10-10T10:00:00.000Z'' None),
            Post env2 (booking ''2023-10-11T11:00:00.000Z'' None)])
        verify1 ''2023-10-09T08:02:00.000Z'' bearer1 ''appt6''
        (move_to ''2023-10-10T10:00:00.000Z'' ''2023-10-10T10:30:00.000Z'')) = 200
   \<and> \<not> no_double_booking js_date (appointments
        (run js_date verify1 unbooked_db
           [Post env1 (booking ''2023-10-10T10:00:00.000Z'' None),
            Post env2 (booking ''2023-10-11T11:00:00.000Z'' None),
            Put ''2023-10-09T08:02:00.000Z'' bearer1 ''appt6''
              (move_to ''2023-10-10T10:00:00.000Z'' ''2023-10-10T10:30:00.000Z'')]))"
  by code_simp

section \<open>The \<open>lock_slot\<close> handler: exclusion and recipients\<close>

text \<open>
  Claim C2. The handler answers every lock request with \<open>slot_locked\<close>. Socket A asks for
  10:00 to 10:30 of user1; one second later, well inside the 30 seconds of A's lock,
  socket B asks for the overlapping 10:15 to 10:45 of user1: both are granted.
\<close>

theorem lock_slot_grants_overlapping:
  "lock_calls [lockA, lockB] =
     [io_emit (slot_locked (lc_data lockA) 1696928430000),
      io_emit (slot_locked (lc_data lockB) 1696928431000)]
   \<and> granted lockA \<and> granted lockB
   \<and> lc_socket lockA \<noteq> lc_socket lockB
   \<and> l_organizer_id (lc_data lockA) = l_organizer_id (lc_data lockB)
   \<and> half_open_overlap (l_slot_start (lc_data lockA), l_slot_end (lc_data lockA))
        (l_slot_start (lc_data lockB), l_slot_end (lc_data lockB))
   \<and> lc_now lockA \<le> lc_now lockB \<and> lc_now lockB < lc_now lockA + 30000"
  by code_simp




section \<open>The frame of PUT /appointments/:id\<close>

lemma put_appointments_200:
  assumes "put_appointments d verify ts auth i r = (d', (200, b), ems)"
  obtains user where "authenticateToken verify auth = Inr user"
    and "d' = d\<lparr>appointments :=
                  map (\<lambda>a. if update_where i (ju_id user) a then update_set r ts a else a)
                    (appointments d)\<rparr>"
proof (cases "authenticateToken verify auth")
  case (Inl resp)
  with assms have "resp = (200, b)" by (simp add: put_appointments_def)
  with Inl show ?thesis
    by (auto simp: authenticateToken_def split: option.splits if_splits list.splits)
next
  case (Inr user)
  with assms that show ?thesis
    by (auto simp: put_appointments_def split: list.splits)
qed

text \<open>
  Claim C10. After a PUT /appointments/:id answered 200, the caller is an authenticated
  user, the other tables are as before, and the appointments table has the same rows in
  the same places except that, in each row with the given id and the caller as organizer,
  \<open>status\<close>, \<open>slot_start\<close> and \<open>slot_end\<close> hold the request's value where it gives
  one and their old value where it gives none, and \<open>updated_at\<close> holds the time of the
  request; every other column of such a row, and every other row, is unchanged.
\<close>

theorem put_appointments_frame:
  assumes "put_appointments d verify ts auth i r = (d', (200, b), ems)"
  shows "\<exists>user. authenticateToken verify auth = Inr user
     \<and> users d' = users d
     \<and> availability_recurring d' = availability_recurring d
     \<and> availability_exceptions d' = availability_exceptions d
     \<and> meeting_types d' = meeting_types d
     \<and> length (appointments d') = length (appointments d)
     \<and> (\<forall>k < length (appointments d).
          if appt_id (appointments d ! k) = i \<and> organizer_id (appointments d ! k) = ju_id user
          then status (appointments d' ! k) =
                 (case p_status r of None \<Rightarrow> status (appointments d ! k) | Some v \<Rightarrow> v)
             \<and> slot_start (appointments d' ! k) =
                 (case p_slot_start r of None \<Rightarrow> slot_start (appointments d ! k) | Some v \<Rightarrow> v)
             \<and> slot_end (appointments d' ! k) =
                 (case p_slot_end r of None \<Rightarrow> slot_end (appointments d ! k) | Some v \<Rightarrow> v)
             \<and> updated_at (appointments d' ! k) = ts
             \<and> appt_id (appointments d' ! k) = appt_id (appointments d ! k)
             \<and> organizer_id (appointments d' ! k) = organizer_id (appointments d ! k)
             \<and> meeting_type_id (appointments d' ! k) = meeting_type_id (appointments d ! k)
             \<and> invitee_name (appointments d' ! k) = invitee_name (appointments d ! k)
             \<and> invitee_email (appointments d' ! k) = invitee_email (appointments d ! k)
             \<and> invitee_phone (appointments d' ! k) = invitee_phone (appointments d ! k)
             \<and> invitee_notes (appointments d' ! k) = invitee_notes (appointments d ! k)
             \<and> cancellation_token (appointments d' ! k) = cancellation_token (appointments d ! k)
             \<and> created_at (appointments d' ! k) = created_at (appointments d ! k)
          else appointments d' ! k = appointments d ! k)"
proof -
  from assms obtain user where auth: "authenticateToken verify auth = Inr user"
    and d': "d' = d\<lparr>appointments :=
                  map (\<lambda>a. if update_where i (ju_id user) a then update_set r ts a else a)
                    (appointments d)\<rparr>"
    by (rule put_appointments_200)
  show ?thesis
  proof (intro exI [of _ user] conjI allI impI)
    fix k assume "k < length (appointments d)"
    then show "if appt_id (appointments d ! k) = i \<and> organizer_id (appointments d ! k) = ju_id user
          then status (appointments d' ! k) =
                 (case p_status r of None \<Rightarrow> status (appointments d ! k) | Some v \<Rightarrow> v)
             \<and> slot_start (appointments d' ! k) =
                 (case p_slot_start r of None \<Rightarrow> slot_start (appointments d ! k) | Some v \<Rightarrow> v)
             \<and> slot_end (appointments d' ! k) =
                 (case p_slot_end r of None \<Rightarrow> slot_end (appointments d ! k) | Some v \<Rightarrow> v)
             \<and> updated_at (appointments d' ! k) = ts
             \<and> appt_id (appointments d' ! k) = appt_id (appointments d ! k)
             \<and> organizer_id (appointments d' ! k) = organizer_id (appointments d ! k)
             \<and> meeting_type_id (appointments d' ! k) = meeting_type_id (appointments d ! k)
             \<and> invitee_name (appointments d' ! k) = invitee_name (appointments d ! k)
             \<and> invitee_email (appointments d' ! k) = invitee_email (appointments d ! k)
             \<and> invitee_phone (appointments d' ! k) = invitee_phone (appointments d ! k)
             \<and> invitee_notes (appointments d' ! k) = invitee_notes (appointments d ! k)
             \<and> cancellation_token (appointments d' ! k) = cancellation_token (appointments d ! k)
             \<and> created_at (appointments d' ! k) = created_at (appointments d ! k)
          else appointments d' ! k = appointments d ! k"
      by (simp add: d' update_where_def update_set_def coalesce_def)
  qed (simp_all add: auth d')
qed

text \<open>
  On the seed data: user1 cancels appt1; the status changes, the interval stays, and
  appt2 is untouched.
\<close>

theorem put_appointments_frame_witness:
  "status_code (put_appointments seed_db verify1 ''2023-10-09T08:02:00.000Z'' bearer1 ''appt1'' cancel) = 200
   \<and> status (appointments (store_after
        (put_appointments seed_db verify1 ''2023-10-09T08:02:00.000Z'' bearer1 ''appt1'' cancel)) ! 0) = ''canceled''
   \<and> slot_start (appointments (store_after
        (put_appointments seed_db verify1 ''2023-10-09T08:02:00.000Z'' bearer1 ''appt1'' cancel)) ! 0) = slot_start appt1
   \<and> appointments (store_after
        (put_appointments seed_db verify1 ''2023-10-09T08:02:00.000Z'' bearer1 ''appt1'' cancel)) ! 1 = appt2"
proof -
  let ?out = "put_appointments seed_db verify1 ''2023-10-09T08:02:00.000Z'' bearer1 ''appt1'' cancel"
  have code: "status_code ?out = 200" by code_simp
  then have eq: "?out = (store_after ?out, (200, snd (fst (snd ?out))), emitted ?out)"
    by (simp add: status_code_def store_after_def emitted_def prod_eq_iff)
  have auth: "authenticateToken verify1 bearer1 = Inr \<lparr>ju_id = ''user1'', ju_email = ''alice@simplecal.com''\<rparr>"
    by code_simp
  have rows: "appointments seed_db = [appt1, appt2, appt3, appt4]" by (simp add: seed_db_def)
  have ids: "appt_id appt1 = ''appt1''" "organizer_id appt1 = ''user1''" "appt_id appt2 = ''appt2''"
    by (simp_all add: appt1_def appt2_def)
  have req: "p_status cancel = Some ''canceled''" "p_slot_start cancel = None"
    by (simp_all add: cancel_def)
  from put_appointments_frame [OF eq] auth obtain
    h: "\<forall>k < length (appointments seed_db).
          if appt_id (appointments seed_db ! k) = ''appt1'' \<and> organizer_id (appointments seed_db ! k) = ''user1''
          then status (appointments (store_after ?out) ! k) =
                 (case p_status cancel of None \<Rightarrow> status (appointments seed_db ! k) | Some v \<Rightarrow> v)
             \<and> slot_start (appointments (store_after ?out) ! k) =
                 (case p_slot_start cancel of None \<Rightarrow> slot_start (appointments seed_db ! k) | Some v \<Rightarrow> v)
          else appointments (store_after ?out) ! k = appointments seed_db ! k"
    by auto
  from h [rule_format, of 0] h [rule_format, of 1] code show ?thesis
    by (simp add: rows ids req)
qed


section \<open>GET /slots: the mock slot list\<close>

lemma get_slots_found:
  assumes "u \<in> set (users d)" and "u_username u = name" and "name \<noteq> []"
  shows "get_slots d c (Some name) = (200, Slots (mock_slots c))"
proof -
  from assms(1,2) have "u \<in> set (filter (\<lambda>u. u_username u = name) (users d))" by simp
  then obtain v vs where "filter (\<lambda>u. u_username u = name) (users d) = v # vs"
    by (cases "filter (\<lambda>u. u_username u = name) (users d)") auto
  with assms(3) show ?thesis by (simp add: get_slots_def)
qed

text \<open>
  Claim C3, as the code has it. For every organizer found by a username that is not
  empty, GET /slots answers 200 with three slots computed from the clock alone: they start
  1, 2 and 3 hours after the readings of the clock and end 1.5, 2.5 and 3.5 hours after
  them. If the clock does not run backwards during the call, each slot is a proper
  interval, no two of them overlap, and they are in the order of their starts.
\<close>

theorem get_slots_mock_sound:
  assumes "u \<in> set (users d)" and "u_username u = name" and "name \<noteq> []"
    and "clock_monotone c"
  shows "get_slots d c (Some name) =
           (200, Slots
           [\<lparr>start_time = now1 c + 3600000, end_time = now2 c + 5400000, available = True\<rparr>,
            \<lparr>start_time = now3 c + 7200000, end_time = now4 c + 9000000, available = True\<rparr>,
            \<lparr>start_time = now5 c + 10800000, end_time = now6 c + 12600000, available = False\<rparr>])
         \<and> (\<forall>s \<in> set (slots_of (get_slots d c (Some name))). start_time s < end_time s)
         \<and> slots_disjoint (slots_of (get_slots d c (Some name)))
         \<and> sorted (map start_time (slots_of (get_slots d c (Some name))))"
proof -
  have g: "get_slots d c (Some name) = (200, Slots (mock_slots c))"
    using assms(1-3) by (rule get_slots_found)
  then have ss: "slots_of (get_slots d c (Some name)) = mock_slots c"
    by (simp add: slots_of_def)
  from assms(4) have m: "now1 c \<le> now2 c" "now2 c \<le> now3 c" "now3 c \<le> now4 c"
    "now4 c \<le> now5 c" "now5 c \<le> now6 c"
    by (simp_all add: clock_monotone_def)
  show ?thesis
  proof (intro conjI)
    show "get_slots d c (Some name) =
           (200, Slots
           [\<lparr>start_time = now1 c + 3600000, end_time = now2 c + 5400000, available = True\<rparr>,
            \<lparr>start_time = now3 c + 7200000, end_time = now4 c + 9000000, available = True\<rparr>,
            \<lparr>start_time = now5 c + 10800000, end_time = now6 c + 12600000, available = False\<rparr>])"
      by (simp add: g mock_slots_def)
    show "\<forall>s \<in> set (slots_of (get_slots d c (Some name))). start_time s < end_time s"
      using m by (simp add: ss mock_slots_def)
    show "slots_disjoint (slots_of (get_slots d c (Some name)))"
      using m by (simp add: ss mock_slots_def half_open_overlap_def)
    show "sorted (map start_time (slots_of (get_slots d c (Some name))))"
      using m by (simp add: ss mock_slots_def)
  qed
qed

text \<open>On the seed data, for carol, with the clock standing at 2023-10-31T02:00:00Z.\<close>

theorem get_slots_mock_sound_witness:
  "\<lparr>u_id = ''user3'', u_email = ''carol@simplecal.com'', u_password_hash = ''hashedpassword3'',
     u_username = ''carol'', u_name = ''Carol Clark'', u_default_timezone = ''Asia/Tokyo''\<rparr>
     \<in> set (users seed_db)
   \<and> clock_monotone (still 1698717600000)
   \<and> get_slots seed_db (still 1698717600000) (Some ''carol'') =
     (200, Slots [\<lparr>start_time = 1698721200000, end_time = 1698723000000, available = True\<rparr>,
                  \<lparr>start_time = 1698724800000, end_time = 1698726600000, available = True\<rparr>,
                  \<lparr>start_time = 1698728400000, end_time = 1698730200000, available = False\<rparr>])
   \<and> slots_disjoint (slots_of (get_slots seed_db (still 1698717600000) (Some ''carol'')))
   \<and> sorted (map start_time (slots_of (get_slots seed_db (still 1698717600000) (Some ''carol''))))"
proof -
  let ?u = "\<lparr>u_id = ''user3'', u_email = ''carol@simplecal.com'',
     u_password_hash = ''hashedpassword3'', u_username = ''carol'', u_name = ''Carol Clark'',
     u_default_timezone = ''Asia/Tokyo''\<rparr>"
  have u: "?u \<in> set (users seed_db)" by (simp add: seed_db_def seed_users_def)
  have n: "u_username ?u = ''carol''" "''carol'' \<noteq> []" by simp_all
  have m: "clock_monotone (still 1698717600000)"
    by (simp add: clock_monotone_def still_def)
  note sound = get_slots_mock_sound [OF u n m]
  then have "get_slots seed_db (still 1698717600000) (Some ''carol'') =
     (200, Slots [\<lparr>start_time = 1698721200000, end_time = 1698723000000, available = True\<rparr>,
                  \<lparr>start_time = 1698724800000, end_time = 1698726600000, available = True\<rparr>,
                  \<lparr>start_time = 1698728400000, end_time = 1698730200000, available = False\<rparr>])"
    by (simp add: still_def)
  with sound u m show ?thesis by blast
qed

text \<open>
  Claim C3 as stated fails: called at 2023-10-31T02:00:00Z for carol (user3, Asia/Tokyo,
  540 minutes ahead of UTC), the handler emits a slot from 03:00 to 03:30 UTC on
  2023-10-31, a Tuesday both in UTC and in Tokyo. Carol has no exception for that date
  and her only recurring rule is for Thursdays: no window of hers contains the slot.
\<close>

theorem get_slots_outside_window_counterexample:
  "get_slots seed_db (still 1698717600000) (Some ''carol'') =
     (200, Slots [\<lparr>start_time = 1698721200000, end_time = 1698723000000, available = True\<rparr>,
                  \<lparr>start_time = 1698724800000, end_time = 1698726600000, available = True\<rparr>,
                  \<lparr>start_time = 1698728400000, end_time = 1698730200000, available = False\<rparr>])
   \<and> map u_id (filter (\<lambda>u. u_username u = ''carol'') (users seed_db)) = [''user3'']
   \<and> day_of 0 1698721200000 = 19661 \<and> day_of 0 1698723000000 = 19661
   \<and> day_of 540 1698721200000 = 19661 \<and> day_of 540 1698723000000 = 19661
   \<and> \<not> spec_has_window seed_db ''user3'' 19661"
  by code_simp

text \<open>
  Claim C6, as the code has it. GET /slots reads neither the exceptions nor the recurring
  rules: replacing both tables by any others changes nothing in the response, and
  whatever they hold, every organizer with a username that is not empty gets the three
  mock slots.
\<close>

theorem get_slots_ignores_availability:
  "get_slots (d\<lparr>availability_recurring := rules, availability_exceptions := exceptions\<rparr>) c q =
     get_slots d c q
   \<and> (\<forall>u \<in> set (users d). u_username u \<noteq> [] \<longrightarrow>
         get_slots (d\<lparr>availability_recurring := rules, availability_exceptions := exceptions\<rparr>) c
           (Some (u_username u)) =
           (200, Slots
           [\<lparr>start_time = now1 c + 3600000, end_time = now2 c + 5400000, available = True\<rparr>,
            \<lparr>start_time = now3 c + 7200000, end_time = now4 c + 9000000, available = True\<rparr>,
            \<lparr>start_time = now5 c + 10800000, end_time = now6 c + 12600000, available = False\<rparr>]))"
proof (intro conjI ballI impI)
  show "get_slots (d\<lparr>availability_recurring := rules, availability_exceptions := exceptions\<rparr>) c q =
     get_slots d c q"
    by (cases q) (simp_all add: get_slots_def)
next
  fix u assume "u \<in> set (users d)" and "u_username u \<noteq> []"
  then have "get_slots (d\<lparr>availability_recurring := rules, availability_exceptions := exceptions\<rparr>) c
           (Some (u_username u)) = (200, Slots (mock_slots c))"
    by (intro get_slots_found [of u]) simp_all
  then show "get_slots (d\<lparr>availability_recurring := rules, availability_exceptions := exceptions\<rparr>) c
           (Some (u_username u)) =
           (200, Slots
           [\<lparr>start_time = now1 c + 3600000, end_time = now2 c + 5400000, available = True\<rparr>,
            \<lparr>start_time = now3 c + 7200000, end_time = now4 c + 9000000, available = True\<rparr>,
            \<lparr>start_time = now5 c + 10800000, end_time = now6 c + 12600000, available = False\<rparr>])"
    by (simp add: mock_slots_def)
qed

text \<open>
  On the seed data: bob (user2, Europe/London, on UTC in November) has an exception
  window from 10:00 to 14:00 on 2023-11-01 (day 19662), a Wednesday, and his only
  recurring rule is for Tuesdays. Called at 2023-11-01T09:00:00Z, the handler emits its
  three slots, from 10:00 on that day.
\<close>

theorem get_slots_ignores_availability_witness:
  "\<lparr>u_id = ''user2'', u_email = ''bob@simplecal.com'', u_password_hash = ''hashedpassword2'',
     u_username = ''bob'', u_name = ''Bob Brown'', u_default_timezone = ''Europe/London''\<rparr>
     \<in> set (users seed_db)
   \<and> \<lparr>ax_id = ''availexc2'', ax_user_id = ''user2'', ax_exception_date = 19662,
       ax_start_time = Some ''10:00'', ax_end_time = Some ''14:00'',
       ax_note = Some ''Special event availability''\<rparr> \<in> set (availability_exceptions seed_db)
   \<and> filter (\<lambda>r. ar_user_id r = ''user2'' \<and> ar_day_of_week r = weekday 19662)
        (availability_recurring seed_db) = []
   \<and> get_slots seed_db (still 1698829200000) (Some ''bob'') =
     (200, Slots [\<lparr>start_time = 1698832800000, end_time = 1698834600000, available = True\<rparr>,
                  \<lparr>start_time = 1698836400000, end_time = 1698838200000, available = True\<rparr>,
                  \<lparr>start_time = 1698840000000, end_time = 1698841800000, available = False\<rparr>])
   \<and> day_of 0 1698832800000 = 19662"
proof -
  let ?u = "\<lparr>u_id = ''user2'', u_email = ''bob@simplecal.com'',
     u_password_hash = ''hashedpassword2'', u_username = ''bob'', u_name = ''Bob Brown'',
     u_default_timezone = ''Europe/London''\<rparr>"
  have u: "?u \<in> set (users seed_db)" by (simp add: seed_db_def seed_users_def)
  have same: "seed_db\<lparr>availability_recurring := availability_recurring seed_db,
                       availability_exceptions := availability_exceptions seed_db\<rparr> = seed_db"
    by simp
  have x: "\<lparr>ax_id = ''availexc2'', ax_user_id = ''user2'', ax_exception_date = 19662,
       ax_start_time = Some ''10:00'', ax_end_time = Some ''14:00'',
       ax_note = Some ''Special event availability''\<rparr> \<in> set (availability_exceptions seed_db)"
    by (simp add: seed_db_def seed_exceptions_def)
  have r: "filter (\<lambda>r. ar_user_id r = ''user2'' \<and> ar_day_of_week r = weekday 19662)
        (availability_recurring seed_db) = []"
    by code_simp
  have dd: "day_of 0 1698832800000 = 19662" by (simp add: day_of_def)
  from get_slots_ignores_availability [where d = seed_db
      and rules = "availability_recurring seed_db"
      and exceptions = "availability_exceptions seed_db"
      and c = "still 1698829200000" and q = "Some ''bob''"] u
  have "get_slots seed_db (still 1698829200000) (Some ''bob'') =
     (200, Slots [\<lparr>start_time = 1698832800000, end_time = 1698834600000, available = True\<rparr>,
                  \<lparr>start_time = 1698836400000, end_time = 1698838200000, available = True\<rparr>,
                  \<lparr>start_time = 1698840000000, end_time = 1698841800000, available = False\<rparr>])"
    unfolding same by (auto simp: still_def)
  with u x r dd show ?thesis by blast
qed

text \<open>
  Claim C6 as stated fails: alice (user1, America/New_York, 240 minutes behind UTC) has
  an exception for 2023-10-31 with neither start nor end. Called at
  2023-10-31T12:00:00Z, the handler emits three slots, all of them on 2023-10-31 in New
  York as in UTC.
\<close>

theorem get_slots_blackout_counterexample:
  "get_slots seed_db (still 1698753600000) (Some ''alice'') =
     (200, Slots [\<lparr>start_time = 1698757200000, end_time = 1698759000000, available = True\<rparr>,
                  \<lparr>start_time = 1698760800000, end_time = 1698762600000, available = True\<rparr>,
                  \<lparr>start_time = 1698764400000, end_time = 1698766200000, available = False\<rparr>])
   \<and> map u_id (filter (\<lambda>u. u_username u = ''alice'') (users seed_db)) = [''user1'']
   \<and> \<lparr>ax_id = ''availexc1'', ax_user_id = ''user1'', ax_exception_date = 19661,
       ax_start_time = None, ax_end_time = None, ax_note = Some ''Halloween - closed''\<rparr>
       \<in> set (availability_exceptions seed_db)
   \<and> map (day_of (- 240)) [1698757200000, 1698759000000, 1698760800000, 1698762600000,
                             1698764400000, 1698766200000] = [19661, 19661, 19661, 19661, 19661, 19661]
   \<and> map (day_of 0) [1698757200000, 1698759000000, 1698760800000, 1698762600000,
                       1698764400000, 1698766200000] = [19661, 19661, 19661, 19661, 19661, 19661]"
  by code_simp

text \<open>
  Claim C7, as the code has it. Two calls of GET /slots with the same query, between which
  the users table did not change, give the same status and the same availability flags in
  the same order; the bounds of the slots are the readings of the clock plus fixed
  offsets, so the two responses are identical when the two calls read the same clock
  values.
\<close>

theorem get_slots_repeat:
  assumes "users d' = users d"
  shows "fst (get_slots d' c' q) = fst (get_slots d c q)
       \<and> map available (slots_of (get_slots d' c' q)) = map available (slots_of (get_slots d c q))
       \<and> (fst (get_slots d c q) = 200 \<longrightarrow>
            map available (slots_of (get_slots d c q)) = [True, True, False]
            \<and> map start_time (slots_of (get_slots d c q)) =
                [now1 c + 3600000, now3 c + 7200000, now5 c + 10800000]
            \<and> map end_time (slots_of (get_slots d c q)) =
                [now2 c + 5400000, now4 c + 9000000, now6 c + 12600000])
       \<and> (c' = c \<longrightarrow> get_slots d' c' q = get_slots d c q)"
  using assms
  by (auto simp: get_slots_def slots_of_def mock_slots_def split: option.splits list.splits)

theorem get_slots_repeat_witness:
  "users (seed_db\<lparr>appointments := []\<rparr>) = users seed_db
   \<and> fst (get_slots seed_db (still 1698753600000) (Some ''alice'')) = 200
   \<and> map available (slots_of (get_slots (seed_db\<lparr>appointments := []\<rparr>) (still 1698753601000) (Some ''alice'')))
       = map available (slots_of (get_slots seed_db (still 1698753600000) (Some ''alice'')))
   \<and> map start_time (slots_of (get_slots seed_db (still 1698753600000) (Some ''alice'')))
       = [1698757200000, 1698760800000, 1698764400000]"
proof -
  have u: "users (seed_db\<lparr>appointments := []\<rparr>) = users seed_db" by simp
  have s: "fst (get_slots seed_db (still 1698753600000) (Some ''alice'')) = 200" by code_simp
  from get_slots_repeat [OF u, of "still 1698753601000" "Some ''alice''" "still 1698753600000"] s u
  show ?thesis by (simp add: still_def)
qed

text \<open>
  Claim C7 as stated fails: two calls for alice on the same store, one second apart, give
  different slot lists.
\<close>

theorem get_slots_not_idempotent_counterexample:
  "get_slots seed_db (still 1698753600000) (Some ''alice'') \<noteq>
   get_slots seed_db (still 1698753601000) (Some ''alice'')"
  by code_simp


end
